theory Spec2Isabelle
  imports Main "HOL-Library.Sublist" "HOL-Library.Char_ord" "HOL-Library.List_Lexorder"
begin

section \<open>Python strings\<close>

text \<open>
  A Python \<open>str\<close> is modelled as a \<open>string\<close>; every \<open>char\<close> stands for the code point
  of the same number (0 to 255). The character classes below are those of CPython for
  these code points: \<open>str.isspace\<close> (used by \<open>split()\<close>, \<open>strip()\<close> and the regular
  expression class \<open>\s\<close>), the class \<open>\w\<close> of \<open>re\<close> on \<open>str\<close> patterns, and \<open>str.lower\<close>.
\<close>

definition py_isspace :: "char \<Rightarrow> bool" where
  "py_isspace c = (let n = (of_char c :: nat) in
     (9 \<le> n \<and> n \<le> 13) \<or> (28 \<le> n \<and> n \<le> 32) \<or> n = 133 \<or> n = 160)"

definition re_isword :: "char \<Rightarrow> bool" where
  "re_isword c = (let n = (of_char c :: nat) in
     (48 \<le> n \<and> n \<le> 57) \<or> (65 \<le> n \<and> n \<le> 90) \<or> n = 95 \<or> (97 \<le> n \<and> n \<le> 122) \<or>
     n = 170 \<or> n = 178 \<or> n = 179 \<or> n = 181 \<or> n = 185 \<or> n = 186 \<or>
     (188 \<le> n \<and> n \<le> 190) \<or> (192 \<le> n \<and> n \<le> 214) \<or> (216 \<le> n \<and> n \<le> 246) \<or>
     (248 \<le> n \<and> n \<le> 255))"

definition py_lower_char :: "char \<Rightarrow> char" where
  "py_lower_char c = (let n = (of_char c :: nat) in
     if (65 \<le> n \<and> n \<le> 90) \<or> (192 \<le> n \<and> n \<le> 222 \<and> n \<noteq> 215)
     then char_of (n + 32) else c)"

definition py_lower :: "string \<Rightarrow> string" where
  "py_lower s = map py_lower_char s"

text \<open>\<open>s.split()\<close>: the maximal runs of non-whitespace characters, left to right.
  The first argument is the run read so far.\<close>

fun py_split_from :: "string \<Rightarrow> string \<Rightarrow> string list" where
  "py_split_from cur [] = (if cur = [] then [] else [cur])"
| "py_split_from cur (c # cs) =
     (if py_isspace c
      then (if cur = [] then py_split_from [] cs else cur # py_split_from [] cs)
      else py_split_from (cur @ [c]) cs)"

definition py_split :: "string \<Rightarrow> string list" where
  "py_split s = py_split_from [] s"

text \<open>\<open>s.strip()\<close>: whitespace removed at both ends.\<close>

definition py_strip :: "string \<Rightarrow> string" where
  "py_strip s = rev (dropWhile py_isspace (rev (dropWhile py_isspace s)))"

text \<open>\<open>sep.join(xs)\<close>.\<close>

fun py_join :: "string \<Rightarrow> string list \<Rightarrow> string" where
  "py_join sep [] = []"
| "py_join sep [x] = x"
| "py_join sep (x # y # ys) = x @ sep @ py_join sep (y # ys)"

text \<open>\<open>kw in s\<close> on strings: \<open>kw\<close> occurs in \<open>s\<close> as a contiguous block.\<close>

primrec py_in :: "string \<Rightarrow> string \<Rightarrow> bool" where
  "py_in kw [] = (kw = [])"
| "py_in kw (c # cs) = (prefix kw (c # cs) \<or> py_in kw cs)"

text \<open>\<open>str(n)\<close> for a non-negative integer: its decimal digits.\<close>

definition digit_char :: "nat \<Rightarrow> char" where
  "digit_char d = char_of (48 + d)"

fun py_str_nat :: "nat \<Rightarrow> string" where
  "py_str_nat n = (if n < 10 then [digit_char n] else py_str_nat (n div 10) @ [digit_char (n mod 10)])"

declare py_str_nat.simps [simp del]

section \<open>The cache: segments and documents\<close>

text \<open>
  The fields of a document carry the prefix \<open>doc_\<close> (the source's local variables are
  named \<open>title\<close>, \<open>people\<close>, \<open>start_time\<close>), and its key \<open>id\<close> is \<open>doc_ident\<close> (the
  source's \<open>doc_id\<close> is the key of \<open>transcripts\<close>). A segment is a JSON object read
  with \<open>e.get('text', '')\<close> and \<open>e.get('source', 'unknown')\<close>: each key is a string
  when present and may be absent.
\<close>

record segment =
  seg_text :: "string option"
  seg_source :: "string option"

definition get_text :: "segment \<Rightarrow> string" where
  "get_text e = (case seg_text e of None \<Rightarrow> [] | Some s \<Rightarrow> s)"

definition get_source :: "segment \<Rightarrow> string" where
  "get_source e = (case seg_source e of None \<Rightarrow> ''unknown'' | Some s \<Rightarrow> s)"

text \<open>
  A key of a JSON object that is read both with and without a default: it is absent,
  present with \<open>null\<close>, or present with a value. \<open>d.get(k)\<close> gives \<open>None\<close> in the first
  two cases; \<open>d.get(k, default)\<close> gives the default only when the key is absent.
\<close>

datatype 'a field = Absent | Null | Val 'a

definition field_get :: "'a field \<Rightarrow> 'a option" where
  "field_get f = (case f of Absent \<Rightarrow> None | Null \<Rightarrow> None | Val v \<Rightarrow> Some v)"

definition field_get_default :: "'a field \<Rightarrow> 'a \<Rightarrow> 'a option" where
  "field_get_default f d = (case f of Absent \<Rightarrow> Some d | Null \<Rightarrow> None | Val v \<Rightarrow> Some v)"

text \<open>The \<open>people\<close> annotation is free-form: a JSON object (of which only the key
  \<open>title\<close> is read, with \<open>people.get('title', '')\<close>) or any other value.\<close>

datatype people = PeopleDict "string option" | PeopleOther

record cal_event =
  cal_summary :: "string option"

record document =
  doc_ident :: "string option"
  doc_title :: "string field"
  doc_start_time :: "string option"
  doc_startTime :: "string option"
  doc_created_at :: "string option"
  doc_meeting_end_count :: "int option"
  doc_people :: "people option"
  doc_google_calendar_event :: "cal_event option"

text \<open>The empty object \<open>{}\<close> that \<open>doc_lookup.get(doc_id, {})\<close> falls back to.\<close>

definition empty_doc :: document where
  "empty_doc = \<lparr> doc_ident = None, doc_title = Absent, doc_start_time = None,
     doc_startTime = None, doc_created_at = None, doc_meeting_end_count = None,
     doc_people = None, doc_google_calendar_event = None \<rparr>"

section \<open>Completion filter\<close>

definition word_count :: "segment list \<Rightarrow> nat" where
  "word_count entries =
     (if entries \<noteq> [] then sum_list (map (\<lambda>e. length (py_split (get_text e))) entries) else 0)"

definition is_meeting_done :: "document \<Rightarrow> segment list \<Rightarrow> bool" where
  "is_meeting_done doc entries =
     (let end_count = doc_meeting_end_count doc;
          title = field_get (doc_title doc);
          word_count = word_count entries
      in if (case end_count of None \<Rightarrow> True | Some n \<Rightarrow> n = 0 \<or> n < 1) then False
         else if (case title of None \<Rightarrow> True | Some t \<Rightarrow> t = []) then False
         else if word_count < 50 then False
         else True)"

section \<open>Classifier\<close>

text \<open>
  \<open>CLIENT_ROUTES\<close> is a dictionary from keyword tuples to folder names; iterating its
  \<open>items()\<close> visits the pairs in the order they are written. The table is a parameter
  of the model, and \<open>CLIENT_ROUTES\<close> is the one configured in the source.
\<close>

type_synonym routes = "(string list \<times> string) list"

definition CLIENT_ROUTES :: routes where
  "CLIENT_ROUTES =
     [([''acme'', ''acme corp'', ''jane''], ''Acme-Corp''),
      ([''internal'', ''standup'', ''retro''], ''Internal'')]"

text \<open>
  \<open>search_text\<close>: the lower-cased title (\<open>title or ""\<close>), followed by a space and the
  lower-cased people title when \<open>people\<close> is a non-empty object with a non-empty
  \<open>title\<close>. An empty object has no \<open>title\<close>, so it behaves as \<open>PeopleDict None\<close>.
\<close>

definition search_text :: "string option \<Rightarrow> people option \<Rightarrow> string" where
  "search_text title people =
     (let search_text = py_lower (case title of None \<Rightarrow> [] | Some t \<Rightarrow> t)
      in case people of
           Some (PeopleDict pt) \<Rightarrow>
             (let people_title = (case pt of None \<Rightarrow> [] | Some p \<Rightarrow> p)
              in if people_title \<noteq> [] then search_text @ '' '' @ py_lower people_title
                 else search_text)
         | _ \<Rightarrow> search_text)"

primrec match_keywords :: "string list \<Rightarrow> string \<Rightarrow> bool" where
  "match_keywords [] s = False"
| "match_keywords (kw # kws) s = (if py_in kw s then True else match_keywords kws s)"

primrec match_routes :: "routes \<Rightarrow> string \<Rightarrow> string option" where
  "match_routes [] s = None"
| "match_routes (r # rs) s =
     (if match_keywords (fst r) s then Some (snd r) else match_routes rs s)"

definition match_client :: "routes \<Rightarrow> string option \<Rightarrow> people option \<Rightarrow> string option" where
  "match_client routes title people = match_routes routes (search_text title people)"

text \<open>
  The claim's reading of the classifier, in its own words: the search text is the title
  plus the people title when present, and an entry matches when one of its keywords is a
  case-insensitive substring of it.
\<close>

definition ci_substring :: "string \<Rightarrow> string \<Rightarrow> bool" where
  "ci_substring kw s = py_in (py_lower kw) (py_lower s)"

definition raw_search_text :: "string option \<Rightarrow> people option \<Rightarrow> string" where
  "raw_search_text title people =
     (case title of None \<Rightarrow> [] | Some t \<Rightarrow> t) @
     (case people of
        Some (PeopleDict (Some p)) \<Rightarrow> (if p \<noteq> [] then '' '' @ p else [])
      | _ \<Rightarrow> [])"

definition match_client_spec :: "routes \<Rightarrow> string option \<Rightarrow> people option \<Rightarrow> string option" where
  "match_client_spec routes title people =
     map_option snd
       (find (\<lambda>r. \<exists>kw \<in> set (fst r). ci_substring kw (raw_search_text title people)) routes)"

section \<open>Renderer\<close>

text \<open>The label that the sync program puts in front of a speaker turn.\<close>

definition source_label :: "string \<Rightarrow> string" where
  "source_label source =
     (if source = ''microphone'' then ''\<newline>**[You]** ''
      else if source = ''system'' then ''\<newline>**[Other]** ''
      else ''\<newline>**['' @ source @ '']** '')"

text \<open>The loop of \<open>format_transcript\<close> in \<open>granola_sync.py\<close>: the first argument is
  \<open>current_source\<close>, the result is what the loop appends to \<open>lines\<close>.\<close>

fun format_lines :: "string option \<Rightarrow> segment list \<Rightarrow> string list" where
  "format_lines current_source [] = []"
| "format_lines current_source (entry # entries) =
     (let text = py_strip (get_text entry);
          source = get_source entry
      in if text = [] then format_lines current_source entries
         else if Some source \<noteq> current_source
              then source_label source # text # format_lines (Some source) entries
              else text # format_lines current_source entries)"

definition format_transcript :: "segment list \<Rightarrow> string" where
  "format_transcript entries = py_join '' '' (format_lines None entries)"




section \<open>File names\<close>

text \<open>\<open>re.sub(r'[^\w\s-]', '', title)\<close>: keep word characters, whitespace and hyphens.\<close>

definition re_sub_unsafe :: "string \<Rightarrow> string" where
  "re_sub_unsafe s = filter (\<lambda>c. re_isword c \<or> py_isspace c \<or> c = CHR ''-'') s"

text \<open>\<open>s.replace(' ', '-')\<close>: every space character (and no other whitespace) becomes a
  hyphen.\<close>

definition replace_spaces :: "string \<Rightarrow> string" where
  "replace_spaces s = map (\<lambda>c. if c = CHR '' '' then CHR ''-'' else c) s"

text \<open>\<open>re.sub(r'-+', '-', s)\<close>: every run of hyphens becomes one hyphen.\<close>

fun re_sub_hyphens :: "string \<Rightarrow> string" where
  "re_sub_hyphens [] = []"
| "re_sub_hyphens [c] = [c]"
| "re_sub_hyphens (c # d # cs) =
     (if c = CHR ''-'' \<and> d = CHR ''-'' then re_sub_hyphens (d # cs)
      else c # re_sub_hyphens (d # cs))"

definition safe_title :: "string \<Rightarrow> string" where
  "safe_title title = re_sub_hyphens (replace_spaces (py_strip (take 60 (re_sub_unsafe title))))"

definition make_filename :: "string \<Rightarrow> string \<Rightarrow> string" where
  "make_filename date_str title = date_str @ ''-'' @ safe_title title @ ''.md''"

section \<open>Cache reader\<close>

text \<open>
  JSON values as \<open>json.load\<close> returns them; an object is kept as the list of its
  key/value pairs, looked up with \<open>map_of\<close>. The parser of the \<open>json\<close> library is a
  parameter \<open>parse\<close> of the model: \<open>parse s = None\<close> stands for \<open>JSONDecodeError\<close>.
  The file is given by what \<open>open\<close> and \<open>read\<close> yield: \<open>None\<close> when the file is
  missing or unreadable (\<open>OSError\<close>), its text otherwise.
\<close>

datatype json = JNull | JBool bool | JNum int | JStr string | JArr "json list"
  | JObj "(string \<times> json) list"

datatype py_error = OSError | JSONDecodeError | KeyError | TypeError | AttributeError

text \<open>\<open>data[k]\<close>: a missing key raises \<open>KeyError\<close>; a value that is not an object
  has no string subscript (\<open>TypeError\<close>).\<close>

definition json_subscript :: "json \<Rightarrow> string \<Rightarrow> py_error + json" where
  "json_subscript data k =
     (case data of
        JObj kvs \<Rightarrow> (case map_of kvs k of None \<Rightarrow> Inl KeyError | Some v \<Rightarrow> Inr v)
      | _ \<Rightarrow> Inl TypeError)"

text \<open>\<open>json.loads(v)\<close>: the argument must be a string.\<close>

definition json_loads :: "(string \<Rightarrow> json option) \<Rightarrow> json \<Rightarrow> py_error + json" where
  "json_loads parse v =
     (case v of
        JStr s \<Rightarrow> (case parse s of None \<Rightarrow> Inl JSONDecodeError | Some j \<Rightarrow> Inr j)
      | _ \<Rightarrow> Inl TypeError)"

text \<open>\<open>v.get(k, default)\<close>: only an object has the method \<open>get\<close>.\<close>

definition json_get :: "json \<Rightarrow> string \<Rightarrow> json \<Rightarrow> py_error + json" where
  "json_get v k dflt =
     (case v of
        JObj kvs \<Rightarrow> Inr (case map_of kvs k of None \<Rightarrow> dflt | Some x \<Rightarrow> x)
      | _ \<Rightarrow> Inl AttributeError)"

text \<open>\<open>load_cache\<close>, the same function in both programs.\<close>

definition load_cache :: "(string \<Rightarrow> json option) \<Rightarrow> string option \<Rightarrow> py_error + json" where
  "load_cache parse file =
     (case file of
        None \<Rightarrow> Inl OSError
      | Some txt \<Rightarrow>
          (case parse txt of
             None \<Rightarrow> Inl JSONDecodeError
           | Some data \<Rightarrow>
               (case json_subscript data ''cache'' of
                  Inl e \<Rightarrow> Inl e
                | Inr inner \<Rightarrow>
                    (case json_loads parse inner of
                       Inl e \<Rightarrow> Inl e
                     | Inr cache \<Rightarrow> json_get cache ''state'' (JObj [])))))"

section \<open>The loaded state\<close>

text \<open>
  The state that the two programs work on, read through the spec's data model:
  \<open>transcripts\<close> is a dictionary from ids to segment lists, kept as the list of its items
  in iteration order (the ids are distinct), and \<open>documents\<close> is a dictionary from ids to
  documents or a list of documents. An absent key is the empty dictionary.
\<close>

datatype documents = DocsDict "string \<rightharpoonup> document" | DocsList "document list"

record cache_state =
  st_transcripts :: "(string \<times> segment list) list"
  st_documents :: documents

text \<open>\<open>doc_lookup\<close>: the dictionary itself, or \<open>{d.get('id'): d for d in documents}\<close>,
  where a later document replaces an earlier one with the same id and a document
  without id is stored under \<open>None\<close>.\<close>

definition doc_lookup :: "documents \<Rightarrow> (string option \<rightharpoonup> document)" where
  "doc_lookup documents =
     (case documents of
        DocsDict m \<Rightarrow> (\<lambda>k. case k of None \<Rightarrow> None | Some i \<Rightarrow> m i)
      | DocsList ds \<Rightarrow> fold (\<lambda>d m. m(doc_ident d \<mapsto> d)) ds Map.empty)"

text \<open>\<open>doc_lookup.get(doc_id, {})\<close>.\<close>

definition lookup_doc :: "(string option \<rightharpoonup> document) \<Rightarrow> string \<Rightarrow> document" where
  "lookup_doc lookup i = (case lookup (Some i) of None \<Rightarrow> empty_doc | Some d \<Rightarrow> d)"

text \<open>\<open>a or b\<close> on optional strings: \<open>a\<close> when it is a non-empty string, else \<open>b\<close>.\<close>

definition py_truthy :: "string option \<Rightarrow> bool" where
  "py_truthy a = (case a of None \<Rightarrow> False | Some s \<Rightarrow> s \<noteq> [])"

definition py_or :: "string option \<Rightarrow> string option \<Rightarrow> string option" where
  "py_or a b = (if py_truthy a then a else b)"

definition str_or :: "string option \<Rightarrow> string \<Rightarrow> string" where
  "str_or a b = (case a of None \<Rightarrow> b | Some s \<Rightarrow> if s \<noteq> [] then s else b)"

text \<open>\<open>f"{v}"\<close> of an optional string.\<close>

definition py_str :: "string option \<Rightarrow> string" where
  "py_str a = (case a of None \<Rightarrow> ''None'' | Some s \<Rightarrow> s)"

section \<open>Query tool\<close>

record transcript =
  t_id :: string
  t_title :: "string option"
  t_start_time :: "string option"
  t_entries :: "segment list"
  t_word_count :: nat

fun collect_results :: "(string option \<rightharpoonup> document) \<Rightarrow> (string \<times> segment list) list \<Rightarrow> transcript list" where
  "collect_results lookup [] = []"
| "collect_results lookup ((i, entries) # rest) =
     (if entries = [] then collect_results lookup rest
      else (let doc = lookup_doc lookup i
            in \<lparr> t_id = i,
                 t_title = field_get_default (doc_title doc) ''Untitled Meeting'',
                 t_start_time = py_or (doc_start_time doc) (doc_startTime doc),
                 t_entries = entries,
                 t_word_count = sum_list (map (\<lambda>e. length (py_split (get_text e))) entries) \<rparr>
               # collect_results lookup rest))"

text \<open>The sort key \<open>x.get('start_time') or ''\<close>.\<close>

definition sort_key_of :: "transcript \<Rightarrow> string" where
  "sort_key_of x = str_or (t_start_time x) []"

text \<open>\<open>sorted(results, key=..., reverse=True)\<close>: descending, and stable: CPython
  reverses the list, sorts it ascending and stable, and reverses the result.\<close>

definition sorted_reverse :: "('a \<Rightarrow> string) \<Rightarrow> 'a list \<Rightarrow> 'a list" where
  "sorted_reverse key xs = rev (sort_key key (rev xs))"

definition get_transcripts_with_docs :: "cache_state \<Rightarrow> transcript list" where
  "get_transcripts_with_docs state =
     sorted_reverse sort_key_of
       (collect_results (doc_lookup (st_documents state)) (st_transcripts state))"




section \<open>Paths, clock and ledger\<close>

text \<open>\<open>os.path.join(a, b)\<close> on POSIX: an absolute \<open>b\<close> replaces \<open>a\<close>; otherwise \<open>b\<close> is
  appended, after a slash unless \<open>a\<close> is empty or ends with one. A join of three parts
  is two joins.\<close>

definition path_join :: "string \<Rightarrow> string \<Rightarrow> string" where
  "path_join a b =
     (if prefix ''/'' b then b
      else if a = [] \<or> last a = CHR ''/'' then a @ b
      else a @ ''/'' @ b)"

text \<open>The configuration constants of \<open>granola_sync.py\<close>. The directories depend on the
  user's home directory, and the routing table is meant to be edited.\<close>

record config =
  INBOX_DIR :: string
  CLIENTS_DIR :: string
  ROUTES :: routes

text \<open>\<open>get_client_call_notes_dir\<close>. The file system of the model holds regular files
  only, so \<open>os.makedirs\<close> changes nothing in it.\<close>

definition get_client_call_notes_dir :: "config \<Rightarrow> string \<Rightarrow> string" where
  "get_client_call_notes_dir cfg client_folder =
     path_join (path_join (CLIENTS_DIR cfg) client_folder) ''call-notes''"

text \<open>
  \<open>datetime.now()\<close> is read from a clock: the \<open>n\<close>-th call of a run returns \<open>clock n\<close>,
  of which the program uses \<open>strftime('%Y-%m-%d')\<close> and \<open>isoformat()\<close>.
\<close>

record datetime =
  dt_date :: string
  dt_iso :: string

text \<open>A ledger entry in the current format; the legacy stub has no \<open>client\<close> and no
  \<open>title\<close>, and \<open>null\<close> as \<open>file\<close>. All three are read with \<open>tracked.get(k)\<close>, which gives
  \<open>None\<close> for an absent key and for \<open>null\<close>. An entry is a non-empty dictionary, so
  \<open>if tracked\<close> tests that the id is in the ledger.\<close>

record entry =
  e_synced_at :: string
  e_routed :: bool
  e_client :: "string option"
  e_file :: "string option"
  e_title :: "string option"

text \<open>The tracking file: missing, a legacy list of ids, or the dictionary of entries.\<close>

datatype tracking_file = NoFile | LegacyList "string list" | Entries "string \<rightharpoonup> entry"

definition load_tracking :: "tracking_file \<Rightarrow> (string \<rightharpoonup> entry)" where
  "load_tracking tf =
     (case tf of
        NoFile \<Rightarrow> Map.empty
      | LegacyList data \<Rightarrow>
          map_of (map (\<lambda>i. (i, \<lparr> e_synced_at = ''unknown'', e_routed = False, e_client = None,
                                  e_file = None, e_title = None \<rparr>)) data)
      | Entries data \<Rightarrow> data)"

definition save_tracking :: "(string \<rightharpoonup> entry) \<Rightarrow> tracking_file" where
  "save_tracking tracking = Entries tracking"

section \<open>Sync orchestrator\<close>

text \<open>\<open>doc.get('start_time') or doc.get('startTime') or doc.get('created_at') or ''\<close>:
  the first of the three that is a non-empty string, else the empty string.\<close>

definition doc_start :: "document \<Rightarrow> string" where
  "doc_start doc =
     str_or (doc_start_time doc) (str_or (doc_startTime doc) (str_or (doc_created_at doc) []))"

text \<open>\<open>get_date_prefix\<close>, with the number of clock readings made so far, before and
  after.\<close>

definition get_date_prefix :: "(nat \<Rightarrow> datetime) \<Rightarrow> nat \<Rightarrow> document \<Rightarrow> string \<times> nat" where
  "get_date_prefix clock ticks doc =
     (let start_time = doc_start doc
      in if start_time \<noteq> [] \<and> 10 \<le> length start_time then (take 10 start_time, ticks)
         else (dt_date (clock ticks), Suc ticks))"

definition build_content :: "string \<Rightarrow> document \<Rightarrow> segment list \<Rightarrow> string" where
  "build_content title doc entries =
     (let start_time = doc_start doc;
          word_count = word_count entries;
          doc_id = (case doc_ident doc of None \<Rightarrow> ''unknown'' | Some i \<Rightarrow> i);
          cal_title = (case doc_google_calendar_event doc of
                         None \<Rightarrow> []
                       | Some cal_event \<Rightarrow> str_or (cal_summary cal_event) [])
      in ''# '' @ title @ ''\<newline>\<newline>'' @
         ''**Meeting ID:** '' @ doc_id @ ''\<newline>'' @
         (if cal_title \<noteq> [] \<and> cal_title \<noteq> title
          then ''**Calendar:** '' @ cal_title @ ''\<newline>'' else []) @
         ''**Date:** '' @ (if start_time \<noteq> [] then start_time else ''Unknown'') @ ''\<newline>'' @
         ''**Words:** ~'' @ py_str_nat word_count @ ''\<newline>'' @
         ''**Segments:** '' @ py_str_nat (length entries) @ ''\<newline>\<newline>'' @
         ''---\<newline>\<newline>'' @
         format_transcript entries)"

text \<open>
  The state of a run: the regular files on disk (path to content), the ledger
  \<open>tracking\<close>, the three counters, the number of clock readings, and the lines printed.
\<close>

record sync_state =
  st_files :: "string \<rightharpoonup> string"
  st_tracking :: "string \<rightharpoonup> entry"
  new_count :: nat
  routed_count :: nat
  updated_count :: nat
  st_ticks :: nat
  st_printed :: "string list"

text \<open>
  The body of the loop of \<open>sync_transcripts\<close> for one item of \<open>transcripts\<close>.
  \<open>make_filename\<close> raises \<open>TypeError\<close> when the title it is given is \<open>None\<close>.
\<close>

definition sync_one ::
  "config \<Rightarrow> (nat \<Rightarrow> datetime) \<Rightarrow> (string option \<rightharpoonup> document) \<Rightarrow> sync_state \<Rightarrow>
   string \<times> segment list \<Rightarrow> py_error + sync_state" where
  "sync_one cfg clock lookup st item =
     (let doc_id = fst item; entries = snd item
      in if entries = [] then Inr st
         else
           let doc = lookup_doc lookup doc_id
           in if \<not> is_meeting_done doc entries then Inr st
              else
                (case field_get_default (doc_title doc) ''Untitled Meeting'' of
                   None \<Rightarrow> Inl TypeError
                 | Some title \<Rightarrow>
                     let date_prefix = fst (get_date_prefix clock (st_ticks st) doc);
                         ticks = snd (get_date_prefix clock (st_ticks st) doc);
                         st1 = st \<lparr> st_ticks := ticks \<rparr>;
                         people = doc_people doc;
                         client_folder = match_client (ROUTES cfg) (Some title) people;
                         dest_dir = (if py_truthy client_folder
                                     then get_client_call_notes_dir cfg (str_or client_folder [])
                                     else INBOX_DIR cfg);
                         filename = make_filename date_prefix title;
                         filepath = path_join dest_dir filename
                     in (case st_tracking st1 doc_id of
                           Some tracked \<Rightarrow>
                             let old_file = e_file tracked;
                                 was_routed = e_routed tracked
                             in if \<not> was_routed \<and> py_truthy client_folder \<and> py_truthy old_file
                                then
                                  let old_path = path_join (INBOX_DIR cfg) (str_or old_file [])
                                  in if st_files st1 old_path \<noteq> None
                                     then Inr (st1
                                       \<lparr> st_files :=
                                           ((st_files st1)
                                              (filepath \<mapsto> build_content title doc entries))
                                              (old_path := None),
                                         st_tracking := (st_tracking st1)(doc_id \<mapsto>
                                           \<lparr> e_synced_at = dt_iso (clock ticks),
                                             e_routed = True,
                                             e_client = client_folder,
                                             e_file = Some filename,
                                             e_title = Some title \<rparr>),
                                         routed_count := routed_count st1 + 1,
                                         st_ticks := Suc ticks,
                                         st_printed := st_printed st1 @
                                           [''Routed: '' @ py_str old_file @ '' -> '' @
                                            py_str client_folder @ ''/call-notes/'' @ filename] \<rparr>)
                                     else Inr st1
                                else if py_truthy old_file \<and> e_title tracked \<noteq> Some title
                                then
                                  let old_path =
                                        path_join (if was_routed then dest_dir else INBOX_DIR cfg)
                                          (str_or old_file [])
                                  in if st_files st1 old_path \<noteq> None
                                     then Inr (st1
                                       \<lparr> st_files :=
                                           (if old_path \<noteq> filepath
                                            then ((st_files st1)
                                                    (filepath \<mapsto> build_content title doc entries))
                                                    (old_path := None)
                                            else (st_files st1)
                                                    (filepath \<mapsto> build_content title doc entries)),
                                         st_tracking := (st_tracking st1)(doc_id \<mapsto>
                                           \<lparr> e_synced_at = dt_iso (clock ticks),
                                             e_routed = was_routed,
                                             e_client = (if was_routed then client_folder else None),
                                             e_file = Some filename,
                                             e_title = Some title \<rparr>),
                                         updated_count := updated_count st1 + 1,
                                         st_ticks := Suc ticks,
                                         st_printed := st_printed st1 @
                                           [''Updated: '' @ py_str old_file @ '' -> '' @ filename] \<rparr>)
                                     else Inr st1
                                else Inr st1
                         | None \<Rightarrow>
                             Inr (st1
                               \<lparr> st_files :=
                                   (st_files st1)(filepath \<mapsto> build_content title doc entries),
                                 st_tracking := (st_tracking st1)(doc_id \<mapsto>
                                   \<lparr> e_synced_at = dt_iso (clock ticks),
                                     e_routed = py_truthy client_folder,
                                     e_client = client_folder,
                                     e_file = Some filename,
                                     e_title = Some title \<rparr>),
                                 new_count := new_count st1 + 1,
                                 st_ticks := Suc ticks,
                                 st_printed := st_printed st1 @
                                   [if py_truthy client_folder
                                    then ''Synced -> '' @ py_str client_folder @ ''/call-notes/'' @
                                         filename
                                    else ''Synced -> inbox/'' @ filename] \<rparr>))))"

text \<open>The loop: an exception ends the run.\<close>

fun sync_loop ::
  "config \<Rightarrow> (nat \<Rightarrow> datetime) \<Rightarrow> (string option \<rightharpoonup> document) \<Rightarrow> sync_state \<Rightarrow>
   (string \<times> segment list) list \<Rightarrow> py_error + sync_state" where
  "sync_loop cfg clock lookup st [] = Inr st"
| "sync_loop cfg clock lookup st (item # rest) =
     (case sync_one cfg clock lookup st item of
        Inl e \<Rightarrow> Inl e
      | Inr st' \<Rightarrow> sync_loop cfg clock lookup st' rest)"

text \<open>The summary line printed at the end of a run.\<close>

definition summary_line :: "sync_state \<Rightarrow> string" where
  "summary_line st =
     (let total = new_count st + routed_count st + updated_count st
      in if total = 0 then ''No new transcripts to sync.''
         else ''\<newline>Done: '' @
              py_join '', ''
                ((if new_count st \<noteq> 0 then [py_str_nat (new_count st) @ '' new''] else []) @
                 (if routed_count st \<noteq> 0 then [py_str_nat (routed_count st) @ '' routed'']
                  else []) @
                 (if updated_count st \<noteq> 0 then [py_str_nat (updated_count st) @ '' updated'']
                  else [])) @
              ''.'')"

text \<open>
  \<open>sync_transcripts\<close>, given the loaded state, the files on disk and the tracking file;
  it returns the tracking file written by \<open>save_tracking\<close> and the final state.
\<close>

definition sync_transcripts ::
  "config \<Rightarrow> (nat \<Rightarrow> datetime) \<Rightarrow> cache_state \<Rightarrow> (string \<rightharpoonup> string) \<Rightarrow> tracking_file \<Rightarrow>
   py_error + (tracking_file \<times> sync_state)" where
  "sync_transcripts cfg clock state files tf =
     (let transcripts = st_transcripts state;
          lookup = doc_lookup (st_documents state);
          tracking = load_tracking tf;
          st0 = \<lparr> st_files = files, st_tracking = tracking, new_count = 0, routed_count = 0,
                  updated_count = 0, st_ticks = 0, st_printed = [] \<rparr>
      in case sync_loop cfg clock lookup st0 transcripts of
           Inl e \<Rightarrow> Inl e
         | Inr st \<Rightarrow>
             Inr (save_tracking (st_tracking st),
                  st \<lparr> st_printed := st_printed st @ [summary_line st] \<rparr>))"


section \<open>Example inputs\<close>

text \<open>A parser that reads the text \<open>A\<close> as an object whose key \<open>cache\<close> holds the text
  \<open>B\<close>, the text \<open>B\<close> as the empty object, the text \<open>C\<close> as an object whose key \<open>cache\<close>
  holds the text \<open>D\<close>, the text \<open>D\<close> as an object with the key \<open>state\<close>, and nothing else.\<close>

definition ex_parse :: "string \<Rightarrow> json option" where
  "ex_parse =
     [''A'' \<mapsto> JObj [(''cache'', JStr ''B'')],
      ''B'' \<mapsto> JObj [],
      ''C'' \<mapsto> JObj [(''cache'', JStr ''D'')],
      ''D'' \<mapsto> JObj [(''state'', JObj [(''transcripts'', JObj [])])]]"

text \<open>A cache with two transcripts: the id of the older one occurs in the title of the
  newer one.\<close>

definition ex_segment :: segment where
  "ex_segment = \<lparr> seg_text = Some ''hello'', seg_source = Some ''system'' \<rparr>"

definition ex_cache :: cache_state where
  "ex_cache =
     \<lparr> st_transcripts = [(''abc'', [ex_segment]), (''xyz'', [ex_segment])],
       st_documents = DocsDict
         [''abc'' \<mapsto> empty_doc \<lparr> doc_title := Val ''Budget'',
                                   doc_start_time := Some ''2024-01-01'' \<rparr>,
          ''xyz'' \<mapsto> empty_doc \<lparr> doc_title := Val ''Notes ABC review'',
                                   doc_start_time := Some ''2024-02-01'' \<rparr>] \<rparr>"

text \<open>A configuration with the routing table of the source, a clock that stands still,
  and a segment of fifty words.\<close>

definition ex_cfg :: config where
  "ex_cfg = \<lparr> INBOX_DIR = ''/inbox'', CLIENTS_DIR = ''/clients'', ROUTES = CLIENT_ROUTES \<rparr>"

definition ex_clock :: "nat \<Rightarrow> datetime" where
  "ex_clock n = \<lparr> dt_date = ''2024-06-01'', dt_iso = ''2024-06-01T12:00:00'' \<rparr>"

definition ex_long_segment :: segment where
  "ex_long_segment =
     \<lparr> seg_text = Some (concat (replicate 50 ''word '')), seg_source = Some ''microphone'' \<rparr>"

text \<open>A meeting filed under \<open>Acme-Corp\<close> whose title has changed and now matches
  \<open>Internal\<close>; its file is where the ledger says.\<close>

definition ex_moved_doc :: document where
  "ex_moved_doc =
     empty_doc \<lparr> doc_ident := Some ''m1'', doc_title := Val ''Standup weekly'',
                 doc_start_time := Some ''2024-03-01T10:00:00'',
                 doc_meeting_end_count := Some 1 \<rparr>"

definition ex_moved_cache :: cache_state where
  "ex_moved_cache =
     \<lparr> st_transcripts = [(''m1'', [ex_long_segment])],
       st_documents = DocsDict [''m1'' \<mapsto> ex_moved_doc] \<rparr>"

definition ex_moved_entry :: entry where
  "ex_moved_entry =
     \<lparr> e_synced_at = ''2024-03-01T11:00:00'', e_routed = True, e_client = Some ''Acme-Corp'',
       e_file = Some ''2024-03-01-Acme-sync.md'', e_title = Some ''Acme sync'' \<rparr>"

definition ex_moved_files :: "string \<rightharpoonup> string" where
  "ex_moved_files = [''/clients/Acme-Corp/call-notes/2024-03-01-Acme-sync.md'' \<mapsto> ''old'']"

text \<open>A ledger entry whose inbox file is missing, next to a new meeting that gets the
  missing file's name.\<close>

definition ex_doc_new_name :: document where
  "ex_doc_new_name =
     empty_doc \<lparr> doc_ident := Some ''m1'', doc_title := Val ''New name'',
                 doc_start_time := Some ''2024-01-02T10:00:00'',
                 doc_meeting_end_count := Some 1 \<rparr>"

definition ex_doc_foo :: document where
  "ex_doc_foo =
     empty_doc \<lparr> doc_ident := Some ''m2'', doc_title := Val ''Foo'',
                 doc_start_time := Some ''2024-01-01T10:00:00'',
                 doc_meeting_end_count := Some 1 \<rparr>"

definition ex_stuck_cache :: cache_state where
  "ex_stuck_cache =
     \<lparr> st_transcripts = [(''m1'', [ex_long_segment]), (''m2'', [ex_long_segment])],
       st_documents = DocsDict [''m1'' \<mapsto> ex_doc_new_name, ''m2'' \<mapsto> ex_doc_foo] \<rparr>"


text \<open>The run on the moved meeting, and the two runs in a row on the stuck entry, the
  second from the files and the tracking file that the first has left.\<close>

definition ex_moved_run :: "py_error + (tracking_file \<times> sync_state)" where
  "ex_moved_run =
     sync_transcripts ex_cfg ex_clock ex_moved_cache ex_moved_files
       (Entries [''m1'' \<mapsto> ex_moved_entry])"



section \<open>Properties of the string functions\<close>

lemma py_split_from_space:
  "py_isspace c \<Longrightarrow> py_split_from [] (c # s) = py_split_from [] s"
  by simp

lemma py_split_from_run:
  "\<forall>c \<in> set t. \<not> py_isspace c \<Longrightarrow> py_split_from cur (t @ s) = py_split_from (cur @ t) s"
  by (induction t arbitrary: cur) auto

lemma py_split_spaces:
  "\<forall>c \<in> set w. py_isspace c \<Longrightarrow> py_split (w @ s) = py_split s"
  by (induction w) (auto simp: py_split_def)

lemma py_split_word:
  "t \<noteq> [] \<Longrightarrow> \<forall>c \<in> set t. \<not> py_isspace c \<Longrightarrow> py_isspace d \<Longrightarrow>
   py_split (t @ d # s) = t # py_split s"
  by (simp add: py_split_def py_split_from_run)

lemma py_split_last_word:
  "t \<noteq> [] \<Longrightarrow> \<forall>c \<in> set t. \<not> py_isspace c \<Longrightarrow> py_split t = [t]"
  using py_split_from_run [of t "[]" "[]"] by (simp add: py_split_def)

lemma py_split_from_tokens:
  "\<forall>c \<in> set cur. \<not> py_isspace c \<Longrightarrow> t \<in> set (py_split_from cur s) \<Longrightarrow>
   t \<noteq> [] \<and> (\<forall>c \<in> set t. \<not> py_isspace c)"
proof (induction s arbitrary: cur)
  case Nil
  then show ?case by (auto split: if_splits)
next
  case (Cons a s)
  show ?case
  proof (cases "py_isspace a")
    case True
    with Cons.prems(2) have "(t = cur \<and> cur \<noteq> []) \<or> t \<in> set (py_split_from [] s)"
      by (auto split: if_splits)
    then show ?thesis
      using Cons.IH [of "[]"] Cons.prems(1) by auto
  next
    case False
    with Cons.prems(2) have "t \<in> set (py_split_from (cur @ [a]) s)"
      by simp
    then show ?thesis
      using Cons.IH [of "cur @ [a]"] Cons.prems(1) False by auto
  qed
qed

lemma py_split_tokens:
  "t \<in> set (py_split s) \<Longrightarrow> t \<noteq> [] \<and> (\<forall>c \<in> set t. \<not> py_isspace c)"
  using py_split_from_tokens [of "[]" t s] by (simp add: py_split_def)

lemma py_split_from_concat:
  "\<forall>c \<in> set cur. \<not> py_isspace c \<Longrightarrow>
   concat (py_split_from cur s) = cur @ filter (\<lambda>c. \<not> py_isspace c) s"
  by (induction s arbitrary: cur) auto

lemma py_split_concat: "concat (py_split s) = filter (\<lambda>c. \<not> py_isspace c) s"
  using py_split_from_concat [of "[]" s] by (simp add: py_split_def)

lemma py_in_iff: "py_in kw s \<longleftrightarrow> (\<exists>ps ss. s = ps @ kw @ ss)"
proof (induction s)
  case Nil
  then show ?case by auto
next
  case (Cons c cs)
  show ?case
  proof
    assume "py_in kw (c # cs)"
    then consider "prefix kw (c # cs)" | "py_in kw cs" by auto
    then show "\<exists>ps ss. c # cs = ps @ kw @ ss"
    proof cases
      case 1
      then obtain ss where "c # cs = kw @ ss" by (auto simp: prefix_def)
      then have "c # cs = [] @ kw @ ss" by simp
      then show ?thesis by blast
    next
      case 2
      with Cons.IH obtain ps ss where "cs = ps @ kw @ ss" by blast
      then have "c # cs = (c # ps) @ kw @ ss" by simp
      then show ?thesis by blast
    qed
  next
    assume "\<exists>ps ss. c # cs = ps @ kw @ ss"
    then obtain ps ss where e: "c # cs = ps @ kw @ ss" by blast
    show "py_in kw (c # cs)"
    proof (cases ps)
      case Nil
      with e have "prefix kw (c # cs)" by (simp add: prefix_def)
      then show ?thesis by simp
    next
      case (Cons p ps')
      with e have "cs = ps' @ kw @ ss" by simp
      with Cons.IH have "py_in kw cs" by blast
      then show ?thesis by simp
    qed
  qed
qed

section \<open>Completion filter: properties\<close>

lemma word_count_sum:
  "word_count entries = sum_list (map (\<lambda>e. length (py_split (get_text e))) entries)"
  by (cases entries) (simp_all add: word_count_def)

text \<open>
  Claim C1. For every document and every segment list, \<open>is_meeting_done\<close> returns true
  if and only if \<open>meeting_end_count\<close> is present and at least 1, the title is present and
  non-empty, and the total word count is at least 50, where the word count is the sum
  over all segments of the number of whitespace-separated tokens of the segment's text
  (0 for the empty list). In particular it returns false whenever the word count is
  below 50, whatever the other fields are.
\<close>

theorem is_meeting_done_iff:
  "(is_meeting_done doc entries \<longleftrightarrow>
      (\<exists>n. doc_meeting_end_count doc = Some n \<and> 1 \<le> n) \<and>
      (\<exists>t. doc_title doc = Val t \<and> t \<noteq> []) \<and>
      50 \<le> (\<Sum>e\<leftarrow>entries. length (py_split (get_text e)))) \<and>
   word_count entries = (\<Sum>e\<leftarrow>entries. length (py_split (get_text e))) \<and>
   word_count [] = 0 \<and>
   (word_count entries < 50 \<longrightarrow> \<not> is_meeting_done doc entries)"
proof -
  have wc: "word_count entries = (\<Sum>e\<leftarrow>entries. length (py_split (get_text e)))"
    by (rule word_count_sum)
  have "is_meeting_done doc entries \<longleftrightarrow>
      (\<exists>n. doc_meeting_end_count doc = Some n \<and> 1 \<le> n) \<and>
      (\<exists>t. doc_title doc = Val t \<and> t \<noteq> []) \<and> 50 \<le> word_count entries"
    by (cases "doc_title doc"; cases "doc_meeting_end_count doc")
       (auto simp: is_meeting_done_def field_get_def Let_def)
  then show ?thesis
    using wc by (auto simp: word_count_def)
qed

theorem is_meeting_done_iff_witness:
  "word_count [\<lparr> seg_text = Some ''hello  world'', seg_source = Some ''microphone'' \<rparr>] = 2 \<and>
   \<not> is_meeting_done (empty_doc \<lparr> doc_title := Val ''Weekly'', doc_meeting_end_count := Some 2 \<rparr>)
      [\<lparr> seg_text = Some ''hello  world'', seg_source = Some ''microphone'' \<rparr>]"
proof -
  have w: "word_count [\<lparr> seg_text = Some ''hello  world'', seg_source = Some ''microphone'' \<rparr>] = 2"
    by code_simp
  show ?thesis
    using w is_meeting_done_iff
      [of "empty_doc \<lparr> doc_title := Val ''Weekly'', doc_meeting_end_count := Some 2 \<rparr>"
          "[\<lparr> seg_text = Some ''hello  world'', seg_source = Some ''microphone'' \<rparr>]"]
    by simp
qed

section \<open>Classifier: properties\<close>

lemma match_keywords_iff: "match_keywords kws s \<longleftrightarrow> (\<exists>kw \<in> set kws. py_in kw s)"
  by (induction kws) auto

lemma match_routes_find:
  "match_routes rs s = map_option snd (find (\<lambda>r. \<exists>kw \<in> set (fst r). py_in kw s) rs)"
  by (induction rs) (auto simp: match_keywords_iff)

lemma py_lower_append: "py_lower (a @ b) = py_lower a @ py_lower b"
  by (simp add: py_lower_def)

lemma py_lower_char_space: "py_lower_char (CHR '' '') = CHR '' ''"
  by code_simp

lemma search_text_lower: "search_text title people = py_lower (raw_search_text title people)"
  by (auto simp: search_text_def raw_search_text_def py_lower_def py_lower_char_space
           split: option.splits people.splits)

lemma find_cong_set: "(\<And>x. x \<in> set xs \<Longrightarrow> P x = Q x) \<Longrightarrow> find P xs = find Q xs"
  by (induction xs) auto

text \<open>
  Claim C3, as the code has it. For every routing table and every title and people
  value, \<open>match_client\<close> returns the folder of the first table entry, in configured
  order, one of whose keywords occurs as written in the lower-cased search text (the
  lower-cased title, plus a space and the lower-cased people title when present), and
  none when no entry has such a keyword. The keyword itself is not case-folded, so this
  is the case-insensitive test of the claim whenever the table's keywords are in lower
  case, as those of \<open>CLIENT_ROUTES\<close> are. With the entries \<open>[(["a"], "F1"), (["a", "b"], "F2")]\<close>
  a search text containing \<open>a\<close> yields \<open>F1\<close>, and one containing \<open>b\<close> but not \<open>a\<close>
  yields \<open>F2\<close>.
\<close>

theorem match_client_first_match:
  "match_client routes title people =
     map_option snd
       (find (\<lambda>r. \<exists>kw \<in> set (fst r). \<exists>ps ss. search_text title people = ps @ kw @ ss) routes) \<and>
   ((\<forall>r \<in> set routes. \<forall>kw \<in> set (fst r). py_lower kw = kw) \<longrightarrow>
      match_client routes title people = match_client_spec routes title people) \<and>
   (py_in ''a'' (search_text title people) \<longrightarrow>
      match_client [([''a''], ''F1''), ([''a'', ''b''], ''F2'')] title people = Some ''F1'') \<and>
   (py_in ''b'' (search_text title people) \<and> \<not> py_in ''a'' (search_text title people) \<longrightarrow>
      match_client [([''a''], ''F1''), ([''a'', ''b''], ''F2'')] title people = Some ''F2'')"
proof (intro conjI impI)
  show first: "match_client routes title people =
     map_option snd
       (find (\<lambda>r. \<exists>kw \<in> set (fst r). \<exists>ps ss. search_text title people = ps @ kw @ ss) routes)"
    by (simp add: match_client_def match_routes_find py_in_iff)
  show "match_client routes title people = match_client_spec routes title people"
    if low: "\<forall>r \<in> set routes. \<forall>kw \<in> set (fst r). py_lower kw = kw"
  proof -
    have "find (\<lambda>r. \<exists>kw \<in> set (fst r). \<exists>ps ss. search_text title people = ps @ kw @ ss) routes =
          find (\<lambda>r. \<exists>kw \<in> set (fst r). ci_substring kw (raw_search_text title people)) routes"
      using low by (intro find_cong_set) (auto simp: ci_substring_def search_text_lower py_in_iff)
    then show ?thesis
      using first by (simp add: match_client_spec_def)
  qed
  show "match_client [([''a''], ''F1''), ([''a'', ''b''], ''F2'')] title people = Some ''F1''"
    if "py_in ''a'' (search_text title people)"
    using that by (simp add: match_client_def)
  show "match_client [([''a''], ''F1''), ([''a'', ''b''], ''F2'')] title people = Some ''F2''"
    if "py_in ''b'' (search_text title people) \<and> \<not> py_in ''a'' (search_text title people)"
    using that by (simp add: match_client_def)
qed

theorem match_client_first_match_witness:
  "match_client CLIENT_ROUTES (Some ''Weekly Standup'') None = Some ''Internal'' \<and>
   match_client_spec CLIENT_ROUTES (Some ''Weekly Standup'') None = Some ''Internal'' \<and>
   match_client [([''a''], ''F1''), ([''a'', ''b''], ''F2'')] (Some ''Bob'') None = Some ''F2'' \<and>
   match_client [([''a''], ''F1''), ([''a'', ''b''], ''F2'')] (Some ''Alba'') None = Some ''F1''"
proof -
  have low: "\<forall>r \<in> set CLIENT_ROUTES. \<forall>kw \<in> set (fst r). py_lower kw = kw"
    by code_simp
  have m: "match_client CLIENT_ROUTES (Some ''Weekly Standup'') None = Some ''Internal''"
    by code_simp
  have b: "py_in ''b'' (search_text (Some ''Bob'') None) \<and> \<not> py_in ''a'' (search_text (Some ''Bob'') None)"
    by code_simp
  have a: "py_in ''a'' (search_text (Some ''Alba'') None)"
    by code_simp
  from match_client_first_match
         [where routes = CLIENT_ROUTES and title = "Some ''Weekly Standup''" and people = None] low
  have "match_client CLIENT_ROUTES (Some ''Weekly Standup'') None =
        match_client_spec CLIENT_ROUTES (Some ''Weekly Standup'') None"
    by blast
  moreover from match_client_first_match
         [where title = "Some ''Bob''" and people = None and routes = "[]"] b
  have "match_client [([''a''], ''F1''), ([''a'', ''b''], ''F2'')] (Some ''Bob'') None = Some ''F2''"
    by blast
  moreover from match_client_first_match
         [where title = "Some ''Alba''" and people = None and routes = "[]"] a
  have "match_client [([''a''], ''F1''), ([''a'', ''b''], ''F2'')] (Some ''Alba'') None = Some ''F1''"
    by blast
  ultimately show ?thesis
    using m by simp
qed

text \<open>
  The claim as stated fails for a keyword with an upper-case letter: the keyword \<open>A\<close> is
  a case-insensitive substring of the title \<open>a\<close>, and the entry is not matched.
\<close>

theorem match_client_uppercase_keyword:
  "match_client [([''A''], ''F1'')] (Some ''a'') None = None \<and>
   match_client_spec [([''A''], ''F1'')] (Some ''a'') None = Some ''F1''"
proof
  show "match_client [([''A''], ''F1'')] (Some ''a'') None = None"
    by code_simp
  have "ci_substring ''A'' (raw_search_text (Some ''a'') None)"
    by code_simp
  then show "match_client_spec [([''A''], ''F1'')] (Some ''a'') None = Some ''F1''"
    by (simp add: match_client_spec_def)
qed

section \<open>File names: properties\<close>

lemma set_re_sub_hyphens: "set (re_sub_hyphens s) \<subseteq> set s"
  by (induction s rule: re_sub_hyphens.induct) auto

lemma length_re_sub_hyphens: "length (re_sub_hyphens s) \<le> length s"
  by (induction s rule: re_sub_hyphens.induct) auto

lemma hd_re_sub_hyphens: "s \<noteq> [] \<Longrightarrow> re_sub_hyphens s \<noteq> [] \<and> hd (re_sub_hyphens s) = hd s"
  by (induction s rule: re_sub_hyphens.induct) auto

lemma re_sub_hyphens_single:
  "\<not> py_in ''--'' (re_sub_hyphens s)"
proof (induction s rule: re_sub_hyphens.induct)
  case 1
  then show ?case by simp
next
  case (2 c)
  then show ?case by simp
next
  case (3 c d cs)
  show ?case
  proof (cases "c = CHR ''-'' \<and> d = CHR ''-''")
    case True
    with 3 show ?thesis by simp
  next
    case False
    have ne: "re_sub_hyphens (d # cs) \<noteq> []" and h: "hd (re_sub_hyphens (d # cs)) = d"
      using hd_re_sub_hyphens [of "d # cs"] by simp_all
    then obtain r where r: "re_sub_hyphens (d # cs) = d # r"
      by (cases "re_sub_hyphens (d # cs)") auto
    with 3 False show ?thesis by auto
  qed
qed

lemma set_py_strip: "set (py_strip s) \<subseteq> set s"
proof -
  have "set (py_strip s) = set (dropWhile py_isspace (rev (dropWhile py_isspace s)))"
    by (simp add: py_strip_def)
  also have "\<dots> \<subseteq> set (rev (dropWhile py_isspace s))"
    by (rule set_dropWhileD [THEN subsetI])
  also have "\<dots> \<subseteq> set s"
    using set_dropWhileD [of _ py_isspace s] by auto
  finally show ?thesis .
qed

lemma length_py_strip: "length (py_strip s) \<le> length s"
proof -
  have "length (py_strip s) \<le> length (rev (dropWhile py_isspace s))"
    using length_dropWhile_le [of py_isspace "rev (dropWhile py_isspace s)"]
    by (simp add: py_strip_def)
  also have "\<dots> \<le> length s"
    by (simp add: length_dropWhile_le)
  finally show ?thesis .
qed

lemma safe_title_length: "length (safe_title title) \<le> 60"
proof -
  have "length (safe_title title) \<le> length (py_strip (take 60 (re_sub_unsafe title)))"
    using length_re_sub_hyphens [of "replace_spaces (py_strip (take 60 (re_sub_unsafe title)))"]
    by (simp add: safe_title_def replace_spaces_def)
  also have "\<dots> \<le> length (take 60 (re_sub_unsafe title))"
    by (rule length_py_strip)
  also have "\<dots> \<le> 60"
    by simp
  finally show ?thesis .
qed

lemma safe_title_chars:
  assumes "c \<in> set (safe_title title)"
  shows "re_isword c \<or> c = CHR ''-'' \<or> (py_isspace c \<and> c \<noteq> CHR '' '' \<and> c \<in> set title)"
proof -
  from assms have "c \<in> set (replace_spaces (py_strip (take 60 (re_sub_unsafe title))))"
    using set_re_sub_hyphens by (auto simp: safe_title_def)
  then obtain b where b: "b \<in> set (py_strip (take 60 (re_sub_unsafe title)))"
    and c: "c = (if b = CHR '' '' then CHR ''-'' else b)"
    by (auto simp: replace_spaces_def)
  from b have "b \<in> set (take 60 (re_sub_unsafe title))"
    using set_py_strip by auto
  then have "b \<in> set (re_sub_unsafe title)"
    by (rule in_set_takeD)
  then have "b \<in> set title" "re_isword b \<or> py_isspace b \<or> b = CHR ''-''"
    by (auto simp: re_sub_unsafe_def)
  with c show ?thesis by auto
qed

lemma safe_title_plain_spaces:
  assumes "\<forall>c \<in> set title. py_isspace c \<longrightarrow> c = CHR '' ''"
  shows "\<forall>c \<in> set (safe_title title). re_isword c \<or> c = CHR ''-''"
  using assms safe_title_chars by blast

text \<open>
  Claim C5 at a title with a tab character. The tab is whitespace, so the first
  substitution keeps it; only the space character is replaced by a hyphen, so the tab
  reaches the file name, which then holds a character that is neither a word character
  nor a hyphen.
\<close>

theorem make_filename_keeps_tab:
  "make_filename ''2024-03-01'' (''a'' @ [CHR 0x09] @ ''b'') = ''2024-03-01-a'' @ [CHR 0x09] @ ''b.md'' \<and>
   safe_title (''a'' @ [CHR 0x09] @ ''b'') = ''a'' @ [CHR 0x09] @ ''b'' \<and>
   py_isspace (CHR 0x09) \<and> \<not> re_isword (CHR 0x09) \<and> CHR 0x09 \<noteq> CHR ''-''"
  by code_simp

lemma make_filename_example:
  "make_filename ''2024-03-01'' ''Q3 Planning: Acme & Co!!'' = ''2024-03-01-Q3-Planning-Acme-Co.md''"
  by code_simp

section \<open>Renderer: properties\<close>











section \<open>Cache reader: properties\<close>

lemma load_cache_cases:
  "load_cache parse file =
     (case file of
        None \<Rightarrow> Inl OSError
      | Some txt \<Rightarrow>
          (case parse txt of
             None \<Rightarrow> Inl JSONDecodeError
           | Some (JObj kvs) \<Rightarrow>
               (case map_of kvs ''cache'' of
                  None \<Rightarrow> Inl KeyError
                | Some (JStr inner) \<Rightarrow>
                    (case parse inner of
                       None \<Rightarrow> Inl JSONDecodeError
                     | Some (JObj ckvs) \<Rightarrow>
                         Inr (case map_of ckvs ''state'' of None \<Rightarrow> JObj [] | Some v \<Rightarrow> v)
                     | Some _ \<Rightarrow> Inl AttributeError)
                | Some _ \<Rightarrow> Inl TypeError)
           | Some _ \<Rightarrow> Inl TypeError))"
  by (simp add: load_cache_def json_subscript_def json_loads_def json_get_def
      split: option.splits json.splits sum.splits)

text \<open>
  Claim C6, as the code has it. \<open>load_cache\<close> returns a value exactly when the file can
  be read, its text parses to an object whose key \<open>cache\<close> holds a string, and that
  string parses to an object; the value returned is what this inner object holds under
  \<open>state\<close>, and the empty object when the key \<open>state\<close> is absent. In every other case it
  fails: a missing or unreadable file, a failed outer or inner parse, a top-level value
  that is not an object or has no key \<open>cache\<close>, a \<open>cache\<close> value that is not a string, an
  inner value that is not an object.
\<close>

theorem load_cache_returns_iff:
  "(load_cache parse file = Inr st \<longleftrightarrow>
      (\<exists>txt kvs inner ckvs. file = Some txt \<and> parse txt = Some (JObj kvs) \<and>
         map_of kvs ''cache'' = Some (JStr inner) \<and> parse inner = Some (JObj ckvs) \<and>
         st = (case map_of ckvs ''state'' of None \<Rightarrow> JObj [] | Some v \<Rightarrow> v))) \<and>
   ((\<exists>e. load_cache parse file = Inl e) \<longleftrightarrow>
      file = None \<or>
      (\<exists>txt. file = Some txt \<and> parse txt = None) \<or>
      (\<exists>txt data. file = Some txt \<and> parse txt = Some data \<and> (\<forall>kvs. data \<noteq> JObj kvs)) \<or>
      (\<exists>txt kvs. file = Some txt \<and> parse txt = Some (JObj kvs) \<and>
         map_of kvs ''cache'' = None) \<or>
      (\<exists>txt kvs v. file = Some txt \<and> parse txt = Some (JObj kvs) \<and>
         map_of kvs ''cache'' = Some v \<and> (\<forall>inner. v \<noteq> JStr inner)) \<or>
      (\<exists>txt kvs inner. file = Some txt \<and> parse txt = Some (JObj kvs) \<and>
         map_of kvs ''cache'' = Some (JStr inner) \<and> parse inner = None) \<or>
      (\<exists>txt kvs inner c. file = Some txt \<and> parse txt = Some (JObj kvs) \<and>
         map_of kvs ''cache'' = Some (JStr inner) \<and> parse inner = Some c \<and>
         (\<forall>ckvs. c \<noteq> JObj ckvs)))"
proof
  show "load_cache parse file = Inr st \<longleftrightarrow>
      (\<exists>txt kvs inner ckvs. file = Some txt \<and> parse txt = Some (JObj kvs) \<and>
         map_of kvs ''cache'' = Some (JStr inner) \<and> parse inner = Some (JObj ckvs) \<and>
         st = (case map_of ckvs ''state'' of None \<Rightarrow> JObj [] | Some v \<Rightarrow> v))"
    unfolding load_cache_cases by (auto split: option.splits json.splits)
  show "(\<exists>e. load_cache parse file = Inl e) \<longleftrightarrow>
      file = None \<or>
      (\<exists>txt. file = Some txt \<and> parse txt = None) \<or>
      (\<exists>txt data. file = Some txt \<and> parse txt = Some data \<and> (\<forall>kvs. data \<noteq> JObj kvs)) \<or>
      (\<exists>txt kvs. file = Some txt \<and> parse txt = Some (JObj kvs) \<and>
         map_of kvs ''cache'' = None) \<or>
      (\<exists>txt kvs v. file = Some txt \<and> parse txt = Some (JObj kvs) \<and>
         map_of kvs ''cache'' = Some v \<and> (\<forall>inner. v \<noteq> JStr inner)) \<or>
      (\<exists>txt kvs inner. file = Some txt \<and> parse txt = Some (JObj kvs) \<and>
         map_of kvs ''cache'' = Some (JStr inner) \<and> parse inner = None) \<or>
      (\<exists>txt kvs inner c. file = Some txt \<and> parse txt = Some (JObj kvs) \<and>
         map_of kvs ''cache'' = Some (JStr inner) \<and> parse inner = Some c \<and>
         (\<forall>ckvs. c \<noteq> JObj ckvs))"
    unfolding load_cache_cases by (auto split: option.splits json.splits)
qed

theorem load_cache_returns_iff_witness:
  "load_cache ex_parse (Some ''C'') = Inr (JObj [(''transcripts'', JObj [])])"
proof -
  have "\<exists>txt kvs inner ckvs. Some ''C'' = Some txt \<and> ex_parse txt = Some (JObj kvs) \<and>
         map_of kvs ''cache'' = Some (JStr inner) \<and> ex_parse inner = Some (JObj ckvs) \<and>
         JObj [(''transcripts'', JObj [])] =
           (case map_of ckvs ''state'' of None \<Rightarrow> JObj [] | Some v \<Rightarrow> v)"
    by (intro exI [of _ "''C''"] exI [of _ "[(''cache'', JStr ''D'')]"] exI [of _ "''D''"]
        exI [of _ "[(''state'', JObj [(''transcripts'', JObj [])])]"])
       (simp add: ex_parse_def)
  with load_cache_returns_iff [of ex_parse "Some ''C''" "JObj [(''transcripts'', JObj [])]"]
  show ?thesis by blast
qed

text \<open>
  The claim as stated fails where the expected key \<open>state\<close> is absent: the file is read,
  both texts parse, the inner object has no key \<open>state\<close>, and \<open>load_cache\<close> returns the
  empty object instead of failing.
\<close>

theorem load_cache_without_state:
  "ex_parse ''A'' = Some (JObj [(''cache'', JStr ''B'')]) \<and>
   ex_parse ''B'' = Some (JObj []) \<and>
   map_of ([] :: (string \<times> json) list) ''state'' = None \<and>
   load_cache ex_parse (Some ''A'') = Inr (JObj [])"
  by (simp add: ex_parse_def load_cache_cases)


section \<open>Query tool: properties\<close>




lemma ex_cache_sorted:
  "map t_id (get_transcripts_with_docs ex_cache) = [''xyz'', ''abc'']"
  by code_simp





section \<open>Sync orchestrator: the loop body\<close>

lemma is_meeting_done_title:
  "is_meeting_done doc entries \<Longrightarrow> \<exists>t. doc_title doc = Val t \<and> t \<noteq> []"
  by (cases "doc_title doc")
     (auto simp: is_meeting_done_def field_get_def Let_def split: option.splits if_splits)

lemma sync_one_skip:
  "snd item = [] \<or> \<not> is_meeting_done (lookup_doc lookup (fst item)) (snd item) \<Longrightarrow>
   sync_one cfg clock lookup st item = Inr st"
  by (auto simp: sync_one_def Let_def)

lemma sync_one_total: "\<exists>st'. sync_one cfg clock lookup st item = Inr st'"
proof (cases "snd item = [] \<or> \<not> is_meeting_done (lookup_doc lookup (fst item)) (snd item)")
  case True
  then show ?thesis using sync_one_skip by blast
next
  case False
  then obtain t where "doc_title (lookup_doc lookup (fst item)) = Val t"
    using is_meeting_done_title by blast
  with False show ?thesis
    by (simp add: sync_one_def Let_def field_get_default_def split: option.splits)
qed

lemma sync_one_tracking_other:
  "sync_one cfg clock lookup st item = Inr st' \<Longrightarrow> j \<noteq> fst item \<Longrightarrow>
   st_tracking st' j = st_tracking st j"
  by (auto simp: sync_one_def Let_def split: if_splits option.splits)

lemma sync_one_tracking_kept:
  "sync_one cfg clock lookup st item = Inr st' \<Longrightarrow> st_tracking st j \<noteq> None \<Longrightarrow>
   st_tracking st' j \<noteq> None"
  by (auto simp: sync_one_def Let_def split: if_splits option.splits)



section \<open>Sync orchestrator: the run\<close>

lemma sync_loop_total: "\<exists>st'. sync_loop cfg clock lookup st ts = Inr st'"
proof (induction ts arbitrary: st)
  case Nil
  then show ?case by simp
next
  case (Cons item rest)
  obtain st1 where "sync_one cfg clock lookup st item = Inr st1"
    using sync_one_total by blast
  with Cons.IH [of st1] show ?case by simp
qed

lemma sync_loop_tracking_other:
  "sync_loop cfg clock lookup st ts = Inr st' \<Longrightarrow> j \<notin> fst ` set ts \<Longrightarrow>
   st_tracking st' j = st_tracking st j"
proof (induction ts arbitrary: st)
  case Nil
  then show ?case by simp
next
  case (Cons item rest)
  from Cons.prems(1) obtain st1 where
    s1: "sync_one cfg clock lookup st item = Inr st1" and
    r: "sync_loop cfg clock lookup st1 rest = Inr st'"
    by (auto split: sum.splits)
  from Cons.prems(2) have "j \<noteq> fst item" "j \<notin> fst ` set rest" by auto
  with Cons.IH [OF r] sync_one_tracking_other [OF s1] show ?case by simp
qed

lemma sync_loop_tracking_kept:
  "sync_loop cfg clock lookup st ts = Inr st' \<Longrightarrow> st_tracking st j \<noteq> None \<Longrightarrow>
   st_tracking st' j \<noteq> None"
proof (induction ts arbitrary: st)
  case Nil
  then show ?case by simp
next
  case (Cons item rest)
  from Cons.prems(1) obtain st1 where
    s1: "sync_one cfg clock lookup st item = Inr st1" and
    r: "sync_loop cfg clock lookup st1 rest = Inr st'"
    by (auto split: sum.splits)
  from sync_one_tracking_kept [OF s1 Cons.prems(2)] Cons.IH [OF r] show ?case by simp
qed

lemma sync_loop_skip:
  "\<forall>es. (i, es) \<in> set ts \<longrightarrow> es = [] \<or> \<not> is_meeting_done (lookup_doc lookup i) es \<Longrightarrow>
   sync_loop cfg clock lookup st ts = sync_loop cfg clock lookup st (filter (\<lambda>p. fst p \<noteq> i) ts)"
proof (induction ts arbitrary: st)
  case Nil
  then show ?case by simp
next
  case (Cons item rest)
  have ih: "sync_loop cfg clock lookup s rest =
            sync_loop cfg clock lookup s (filter (\<lambda>p. fst p \<noteq> i) rest)" for s
    using Cons.prems by (intro Cons.IH) auto
  show ?case
  proof (cases "fst item = i")
    case True
    with Cons.prems have "snd item = [] \<or> \<not> is_meeting_done (lookup_doc lookup (fst item)) (snd item)"
      by (cases item) auto
    then have "sync_one cfg clock lookup st item = Inr st"
      by (rule sync_one_skip)
    with True ih show ?thesis by simp
  next
    case False
    with ih show ?thesis by (simp split: sum.splits)
  qed
qed




lemma sync_transcripts_loop:
  "sync_transcripts cfg clock state files tf = Inr (tf', r) \<longleftrightarrow>
   (\<exists>st. sync_loop cfg clock (doc_lookup (st_documents state))
            \<lparr> st_files = files, st_tracking = load_tracking tf, new_count = 0,
              routed_count = 0, updated_count = 0, st_ticks = 0, st_printed = [] \<rparr>
            (st_transcripts state) = Inr st \<and>
         tf' = save_tracking (st_tracking st) \<and>
         r = st \<lparr> st_printed := st_printed st @ [summary_line st] \<rparr>)"
  by (auto simp: sync_transcripts_def Let_def split: sum.splits)

lemma sync_transcripts_total:
  "\<exists>tf' r. sync_transcripts cfg clock state files tf = Inr (tf', r)"
proof -
  obtain st where "sync_loop cfg clock (doc_lookup (st_documents state))
            \<lparr> st_files = files, st_tracking = load_tracking tf, new_count = 0,
              routed_count = 0, updated_count = 0, st_ticks = 0, st_printed = [] \<rparr>
            (st_transcripts state) = Inr st"
    using sync_loop_total by blast
  then show ?thesis
    by (simp add: sync_transcripts_def Let_def)
qed

text \<open>
  Claim C8. A run of \<open>sync_transcripts\<close> returns, and no id of the ledger it loaded is
  missing from the ledger it saves. For an id that is absent from \<open>transcripts\<close>, or
  whose segment list is empty, or that fails \<open>is_meeting_done\<close>, the ledger entry after
  the run is the entry before it, the loop body for that id returns the state it was
  given (no file is written or removed, nothing is counted or printed), and the whole
  run is the run on the cache without that id.
\<close>

theorem sync_keeps_ineligible_entries:
  "\<exists>tf' r. sync_transcripts cfg clock state files tf = Inr (tf', r) \<and>
     tf' = Entries (st_tracking r) \<and>
     dom (load_tracking tf) \<subseteq> dom (st_tracking r) \<and>
     (distinct (map fst (st_transcripts state)) \<and>
      (case map_of (st_transcripts state) i of
         None \<Rightarrow> True
       | Some es \<Rightarrow> es = [] \<or> \<not> is_meeting_done (lookup_doc (doc_lookup (st_documents state)) i) es)
      \<longrightarrow>
        st_tracking r i = load_tracking tf i \<and>
        (\<forall>es st. map_of (st_transcripts state) i = Some es \<longrightarrow>
           sync_one cfg clock (doc_lookup (st_documents state)) st (i, es) = Inr st) \<and>
        sync_transcripts cfg clock
          (state \<lparr> st_transcripts := filter (\<lambda>p. fst p \<noteq> i) (st_transcripts state) \<rparr>) files tf =
          Inr (tf', r))"
proof -
  let ?lk = "doc_lookup (st_documents state)"
  let ?st0 = "\<lparr> st_files = files, st_tracking = load_tracking tf, new_count = 0,
              routed_count = 0, updated_count = 0, st_ticks = 0, st_printed = [] \<rparr>"
  let ?ts = "st_transcripts state"
  obtain tf' r where run: "sync_transcripts cfg clock state files tf = Inr (tf', r)"
    using sync_transcripts_total by blast
  then obtain st where
    loop: "sync_loop cfg clock ?lk ?st0 ?ts = Inr st" and
    tf': "tf' = save_tracking (st_tracking st)" and
    r: "r = st \<lparr> st_printed := st_printed st @ [summary_line st] \<rparr>"
    using sync_transcripts_loop [of cfg clock state files tf tf' r] by blast
  have saved: "tf' = Entries (st_tracking r)"
    using tf' r by (simp add: save_tracking_def)
  have kept: "dom (load_tracking tf) \<subseteq> dom (st_tracking r)"
  proof
    fix j assume "j \<in> dom (load_tracking tf)"
    then have "st_tracking ?st0 j \<noteq> None" by auto
    from sync_loop_tracking_kept [OF loop this] r show "j \<in> dom (st_tracking r)" by auto
  qed
  have frame: "st_tracking r i = load_tracking tf i \<and>
        (\<forall>es st. map_of ?ts i = Some es \<longrightarrow> sync_one cfg clock ?lk st (i, es) = Inr st) \<and>
        sync_transcripts cfg clock (state \<lparr> st_transcripts := filter (\<lambda>p. fst p \<noteq> i) ?ts \<rparr>)
          files tf = Inr (tf', r)"
    if d: "distinct (map fst ?ts)"
      and inel: "case map_of ?ts i of None \<Rightarrow> True
                 | Some es \<Rightarrow> es = [] \<or> \<not> is_meeting_done (lookup_doc ?lk i) es"
  proof -
    have skip: "\<forall>es. (i, es) \<in> set ?ts \<longrightarrow> es = [] \<or> \<not> is_meeting_done (lookup_doc ?lk i) es"
    proof (intro allI impI)
      fix es assume "(i, es) \<in> set ?ts"
      with d have "map_of ?ts i = Some es" by simp
      with inel show "es = [] \<or> \<not> is_meeting_done (lookup_doc ?lk i) es" by simp
    qed
    have eq: "sync_loop cfg clock ?lk ?st0 ?ts =
              sync_loop cfg clock ?lk ?st0 (filter (\<lambda>p. fst p \<noteq> i) ?ts)"
      using skip by (rule sync_loop_skip)
    with loop have loop': "sync_loop cfg clock ?lk ?st0 (filter (\<lambda>p. fst p \<noteq> i) ?ts) = Inr st"
      by simp
    have "i \<notin> fst ` set (filter (\<lambda>p. fst p \<noteq> i) ?ts)" by auto
    from sync_loop_tracking_other [OF loop' this] r
    have a: "st_tracking r i = load_tracking tf i" by simp
    have b: "\<forall>es st. map_of ?ts i = Some es \<longrightarrow> sync_one cfg clock ?lk st (i, es) = Inr st"
    proof (intro allI impI)
      fix es st assume "map_of ?ts i = Some es"
      with inel have "es = [] \<or> \<not> is_meeting_done (lookup_doc ?lk i) es" by simp
      then show "sync_one cfg clock ?lk st (i, es) = Inr st"
        using sync_one_skip [of "(i, es)" ?lk cfg clock st] by simp
    qed
    have c: "sync_transcripts cfg clock (state \<lparr> st_transcripts := filter (\<lambda>p. fst p \<noteq> i) ?ts \<rparr>)
          files tf = Inr (tf', r)"
      using loop' tf' r by (simp add: sync_transcripts_def Let_def)
    from a b c show ?thesis by blast
  qed
  from run saved kept frame show ?thesis by blast
qed


theorem sync_keeps_ineligible_entries_witness:
  "\<exists>tf' r. sync_transcripts ex_cfg ex_clock ex_stuck_cache Map.empty (LegacyList [''m0'']) =
       Inr (tf', r) \<and>
     st_tracking r ''m0'' =
       Some \<lparr> e_synced_at = ''unknown'', e_routed = False, e_client = None, e_file = None,
              e_title = None \<rparr>"
proof -
  have h: "distinct (map fst (st_transcripts ex_stuck_cache)) \<and>
      (case map_of (st_transcripts ex_stuck_cache) ''m0'' of
         None \<Rightarrow> True
       | Some es \<Rightarrow> es = [] \<or>
           \<not> is_meeting_done (lookup_doc (doc_lookup (st_documents ex_stuck_cache)) ''m0'') es)"
    by code_simp
  have l: "load_tracking (LegacyList [''m0'']) ''m0'' =
       Some \<lparr> e_synced_at = ''unknown'', e_routed = False, e_client = None, e_file = None,
              e_title = None \<rparr>"
    by (simp add: load_tracking_def)
  from sync_keeps_ineligible_entries
         [of ex_cfg ex_clock ex_stuck_cache Map.empty "LegacyList [''m0'']" "''m0''"] h
  obtain tf' r where
    "sync_transcripts ex_cfg ex_clock ex_stuck_cache Map.empty (LegacyList [''m0'']) =
       Inr (tf', r)"
    "st_tracking r ''m0'' = load_tracking (LegacyList [''m0'']) ''m0''"
    by blast
  with l show ?thesis by auto
qed

section \<open>Sync orchestrator: titles\<close>

lemma sync_one_title:
  assumes "sync_one cfg clock lookup st item = Inr st'"
  shows "(st_tracking st' j \<noteq> st_tracking st j \<longrightarrow>
           (\<exists>e t. st_tracking st' j = Some e \<and> doc_title (lookup_doc lookup j) = Val t \<and>
              t \<noteq> [] \<and> e_title e = Some t)) \<and>
         (st_files st' p \<noteq> st_files st p \<longrightarrow> st_files st' p = None \<or>
           (\<exists>t. doc_title (lookup_doc lookup (fst item)) = Val t \<and> t \<noteq> [] \<and>
              st_files st' p = Some (build_content t (lookup_doc lookup (fst item)) (snd item))))"
proof (cases "snd item = [] \<or> \<not> is_meeting_done (lookup_doc lookup (fst item)) (snd item)")
  case True
  with assms sync_one_skip [of item lookup cfg clock st] show ?thesis by simp
next
  case False
  then obtain t where t: "doc_title (lookup_doc lookup (fst item)) = Val t" "t \<noteq> []"
    using is_meeting_done_title by blast
  with False assms show ?thesis
    by (auto simp: sync_one_def Let_def field_get_default_def split: option.splits if_splits)
qed

lemma sync_loop_title:
  "sync_loop cfg clock lookup st ts = Inr st' \<Longrightarrow>
   (st_tracking st' j \<noteq> st_tracking st j \<longrightarrow>
      (\<exists>e t. st_tracking st' j = Some e \<and> doc_title (lookup_doc lookup j) = Val t \<and>
         t \<noteq> [] \<and> e_title e = Some t)) \<and>
   (st_files st' p \<noteq> st_files st p \<longrightarrow> st_files st' p = None \<or>
      (\<exists>i es t. (i, es) \<in> set ts \<and> doc_title (lookup_doc lookup i) = Val t \<and> t \<noteq> [] \<and>
         st_files st' p = Some (build_content t (lookup_doc lookup i) es)))"
proof (induction ts arbitrary: st)
  case Nil
  then show ?case by simp
next
  case (Cons item rest)
  from Cons.prems obtain st1 where
    s1: "sync_one cfg clock lookup st item = Inr st1" and
    r: "sync_loop cfg clock lookup st1 rest = Inr st'"
    by (auto split: sum.splits)
  note one = sync_one_title [OF s1, of j p]
  note ih = Cons.IH [OF r]
  have a: "\<exists>e t. st_tracking st' j = Some e \<and> doc_title (lookup_doc lookup j) = Val t \<and>
         t \<noteq> [] \<and> e_title e = Some t" if "st_tracking st' j \<noteq> st_tracking st j"
  proof (cases "st_tracking st' j = st_tracking st1 j")
    case True
    with that one show ?thesis by auto
  next
    case False
    with ih show ?thesis by blast
  qed
  have b: "st_files st' p = None \<or>
      (\<exists>i es t. (i, es) \<in> set (item # rest) \<and> doc_title (lookup_doc lookup i) = Val t \<and>
         t \<noteq> [] \<and> st_files st' p = Some (build_content t (lookup_doc lookup i) es))"
    if "st_files st' p \<noteq> st_files st p"
  proof (cases "st_files st' p = st_files st1 p")
    case True
    with that one have "st_files st' p = None \<or>
           (\<exists>t. doc_title (lookup_doc lookup (fst item)) = Val t \<and> t \<noteq> [] \<and>
              st_files st' p = Some (build_content t (lookup_doc lookup (fst item)) (snd item)))"
      by auto
    moreover have "(fst item, snd item) \<in> set (item # rest)" by simp
    ultimately show ?thesis by blast
  next
    case False
    with ih have "st_files st' p = None \<or>
      (\<exists>i es t. (i, es) \<in> set rest \<and> doc_title (lookup_doc lookup i) = Val t \<and> t \<noteq> [] \<and>
         st_files st' p = Some (build_content t (lookup_doc lookup i) es))"
      by blast
    then show ?thesis by auto
  qed
  from a b show ?case by blast
qed

text \<open>
  Claim C10. A document that passes \<open>is_meeting_done\<close> has a title that is a non-empty
  string, so \<open>doc.get('title', 'Untitled Meeting')\<close> is that title and never the
  default. A run of \<open>sync_transcripts\<close> returns; every ledger entry it creates or
  changes carries the title of the document of its id, and every file it writes or
  overwrites holds the content built from the title of the document of one of the
  transcripts.
\<close>

theorem untitled_fallback_unreachable:
  "(is_meeting_done doc es \<longrightarrow>
      (\<exists>t. doc_title doc = Val t \<and> t \<noteq> [] \<and>
           field_get_default (doc_title doc) ''Untitled Meeting'' = Some t)) \<and>
   (\<exists>tf' r. sync_transcripts cfg clock state files tf = Inr (tf', r) \<and>
      (\<forall>j. st_tracking r j \<noteq> load_tracking tf j \<longrightarrow>
         (\<exists>e t. st_tracking r j = Some e \<and>
            doc_title (lookup_doc (doc_lookup (st_documents state)) j) = Val t \<and> t \<noteq> [] \<and>
            e_title e = Some t)) \<and>
      (\<forall>p. st_files r p \<noteq> files p \<longrightarrow> st_files r p = None \<or>
         (\<exists>i es t. (i, es) \<in> set (st_transcripts state) \<and>
            doc_title (lookup_doc (doc_lookup (st_documents state)) i) = Val t \<and> t \<noteq> [] \<and>
            st_files r p =
              Some (build_content t (lookup_doc (doc_lookup (st_documents state)) i) es))))"
proof
  show "is_meeting_done doc es \<longrightarrow>
      (\<exists>t. doc_title doc = Val t \<and> t \<noteq> [] \<and>
           field_get_default (doc_title doc) ''Untitled Meeting'' = Some t)"
    using is_meeting_done_title [of doc es] by (auto simp: field_get_default_def)
next
  let ?lk = "doc_lookup (st_documents state)"
  let ?st0 = "\<lparr> st_files = files, st_tracking = load_tracking tf, new_count = 0,
              routed_count = 0, updated_count = 0, st_ticks = 0, st_printed = [] \<rparr>"
  obtain tf' r where run: "sync_transcripts cfg clock state files tf = Inr (tf', r)"
    using sync_transcripts_total by blast
  then obtain st where
    loop: "sync_loop cfg clock ?lk ?st0 (st_transcripts state) = Inr st" and
    r: "r = st \<lparr> st_printed := st_printed st @ [summary_line st] \<rparr>"
    using sync_transcripts_loop [of cfg clock state files tf tf' r] by blast
  have t: "st_tracking r j \<noteq> load_tracking tf j \<longrightarrow>
         (\<exists>e t. st_tracking r j = Some e \<and> doc_title (lookup_doc ?lk j) = Val t \<and> t \<noteq> [] \<and>
            e_title e = Some t)" for j
    using sync_loop_title [OF loop, of j undefined] r by simp
  have f: "st_files r p \<noteq> files p \<longrightarrow> st_files r p = None \<or>
         (\<exists>i es t. (i, es) \<in> set (st_transcripts state) \<and>
            doc_title (lookup_doc ?lk i) = Val t \<and> t \<noteq> [] \<and>
            st_files r p = Some (build_content t (lookup_doc ?lk i) es))" for p
    using sync_loop_title [OF loop, of undefined p] r by simp
  from run t f show "\<exists>tf' r. sync_transcripts cfg clock state files tf = Inr (tf', r) \<and>
      (\<forall>j. st_tracking r j \<noteq> load_tracking tf j \<longrightarrow>
         (\<exists>e t. st_tracking r j = Some e \<and> doc_title (lookup_doc ?lk j) = Val t \<and> t \<noteq> [] \<and>
            e_title e = Some t)) \<and>
      (\<forall>p. st_files r p \<noteq> files p \<longrightarrow> st_files r p = None \<or>
         (\<exists>i es t. (i, es) \<in> set (st_transcripts state) \<and>
            doc_title (lookup_doc ?lk i) = Val t \<and> t \<noteq> [] \<and>
            st_files r p = Some (build_content t (lookup_doc ?lk i) es)))"
    by blast
qed

theorem untitled_fallback_unreachable_witness:
  "is_meeting_done
     (empty_doc \<lparr> doc_title := Val ''Foo'', doc_meeting_end_count := Some 1 \<rparr>) [ex_long_segment] \<and>
   field_get_default (doc_title (empty_doc \<lparr> doc_title := Val ''Foo'',
       doc_meeting_end_count := Some 1 \<rparr>)) ''Untitled Meeting'' = Some ''Foo''"
proof -
  have d: "is_meeting_done
     (empty_doc \<lparr> doc_title := Val ''Foo'', doc_meeting_end_count := Some 1 \<rparr>) [ex_long_segment]"
    by code_simp
  from untitled_fallback_unreachable
         [of "empty_doc \<lparr> doc_title := Val ''Foo'', doc_meeting_end_count := Some 1 \<rparr>"
             "[ex_long_segment]" ex_cfg ex_clock ex_stuck_cache Map.empty NoFile] d
  have "\<exists>t. doc_title (empty_doc \<lparr> doc_title := Val ''Foo'', doc_meeting_end_count := Some 1 \<rparr>) =
          Val t \<and> t \<noteq> [] \<and>
          field_get_default (doc_title (empty_doc \<lparr> doc_title := Val ''Foo'',
            doc_meeting_end_count := Some 1 \<rparr>)) ''Untitled Meeting'' = Some t"
    by blast
  with d show ?thesis by auto
qed

section \<open>Sync orchestrator: two runs in a row\<close>





section \<open>Sync orchestrator: the example runs\<close>

lemma ex_word_count: "word_count [ex_long_segment] = 50"
  by code_simp

lemma ex_str_one: "py_str_nat (Suc 0) = ''1''"
  by code_simp

lemma ex_moved_match: "match_client CLIENT_ROUTES (Some ''Standup weekly'') None = Some ''Internal''"
  by code_simp

lemma ex_moved_filename:
  "make_filename ''2024-03-01'' ''Standup weekly'' = ''2024-03-01-Standup-weekly.md''"
  by code_simp

lemmas ex_run_defs =
  sync_transcripts_def sync_one_def Let_def ex_cfg_def ex_clock_def load_tracking_def
  save_tracking_def doc_lookup_def lookup_doc_def is_meeting_done_def field_get_def
  field_get_default_def ex_word_count empty_doc_def get_date_prefix_def doc_start_def
  str_or_def py_truthy_def py_str_def get_client_call_notes_dir_def path_join_def
  summary_line_def ex_str_one

lemma ex_moved_run_value:
  "ex_moved_run =
     Inr (Entries [''m1'' \<mapsto> ex_moved_entry],
          \<lparr> st_files = ex_moved_files, st_tracking = [''m1'' \<mapsto> ex_moved_entry],
            new_count = 0, routed_count = 0, updated_count = 0, st_ticks = 0,
            st_printed = [''No new transcripts to sync.''] \<rparr>)"
  by (simp add: ex_moved_run_def ex_run_defs ex_moved_cache_def ex_moved_doc_def
      ex_moved_match ex_moved_filename ex_moved_entry_def ex_moved_files_def)






section \<open>Sync orchestrator: renaming\<close>

text \<open>
  The rename branch where it works: the entry has a file and another title, the reroute
  branch does not apply, and the old file is in the inbox (entry not routed) or in the
  call-notes directory of the client that the current title matches (entry routed).
\<close>

lemma sync_one_rename:
  assumes el: "es \<noteq> []" "is_meeting_done (lookup_doc lookup i) es"
    and ti: "doc_title (lookup_doc lookup i) = Val title"
    and tr: "st_tracking st i = Some tracked"
    and fi: "e_file tracked = Some old_file" "old_file \<noteq> []"
    and ch: "e_title tracked \<noteq> Some title"
    and cf: "client_folder = match_client (ROUTES cfg) (Some title) (doc_people (lookup_doc lookup i))"
    and nr: "e_routed tracked \<or> \<not> py_truthy client_folder"
    and dd: "dest_dir = (if py_truthy client_folder
                         then get_client_call_notes_dir cfg (str_or client_folder [])
                         else INBOX_DIR cfg)"
    and op: "old_path = path_join (if e_routed tracked then dest_dir else INBOX_DIR cfg) old_file"
    and ex: "st_files st old_path \<noteq> None"
    and fp: "filepath = path_join dest_dir
               (make_filename (fst (get_date_prefix clock (st_ticks st) (lookup_doc lookup i))) title)"
  shows "\<exists>st'. sync_one cfg clock lookup st (i, es) = Inr st' \<and>
     st_files st' =
       (if old_path \<noteq> filepath
        then ((st_files st)(filepath \<mapsto> build_content title (lookup_doc lookup i) es))
               (old_path := None)
        else (st_files st)(filepath \<mapsto> build_content title (lookup_doc lookup i) es)) \<and>
     (\<exists>e. st_tracking st' = (st_tracking st)(i \<mapsto> e) \<and>
        e_title e = Some title \<and> e_routed e = e_routed tracked \<and>
        e_client e = (if e_routed tracked then client_folder else None) \<and>
        e_file e =
          Some (make_filename (fst (get_date_prefix clock (st_ticks st) (lookup_doc lookup i)))
                  title)) \<and>
     updated_count st' = updated_count st + 1 \<and>
     new_count st' = new_count st \<and> routed_count st' = routed_count st"
  using assms
  by (auto simp: sync_one_def Let_def field_get_default_def py_truthy_def str_or_def)

text \<open>
  Claim C4 at a routed meeting whose new title matches another client. The ledger entry
  of \<open>m1\<close> is routed to \<open>Acme-Corp\<close>, its file is in the call-notes directory of
  \<open>Acme-Corp\<close>, and its stored title differs from the current title \<open>Standup weekly\<close>,
  which matches \<open>Internal\<close>. The rename branch looks for the old file in the call-notes
  directory of \<open>Internal\<close>, does not find it, and the run does nothing: no file is
  written or removed, the ledger entry keeps the old title, and nothing is counted.
\<close>

theorem rename_skips_moved_client:
  "map_of (st_transcripts ex_moved_cache) ''m1'' = Some [ex_long_segment] \<and>
   is_meeting_done (lookup_doc (doc_lookup (st_documents ex_moved_cache)) ''m1'') [ex_long_segment] \<and>
   doc_title (lookup_doc (doc_lookup (st_documents ex_moved_cache)) ''m1'') = Val ''Standup weekly'' \<and>
   e_title ex_moved_entry \<noteq> Some ''Standup weekly'' \<and>
   e_routed ex_moved_entry \<and> e_client ex_moved_entry = Some ''Acme-Corp'' \<and>
   ex_moved_files (path_join (get_client_call_notes_dir ex_cfg ''Acme-Corp'')
                     ''2024-03-01-Acme-sync.md'') = Some ''old'' \<and>
   \<not> isl ex_moved_run \<and>
   updated_count (snd (projr ex_moved_run)) = 0 \<and>
   routed_count (snd (projr ex_moved_run)) = 0 \<and>
   new_count (snd (projr ex_moved_run)) = 0 \<and>
   st_tracking (snd (projr ex_moved_run)) ''m1'' = Some ex_moved_entry \<and>
   st_files (snd (projr ex_moved_run))
     ''/clients/Acme-Corp/call-notes/2024-03-01-Acme-sync.md'' = Some ''old'' \<and>
   st_files (snd (projr ex_moved_run))
     ''/clients/Acme-Corp/call-notes/2024-03-01-Standup-weekly.md'' = None \<and>
   st_files (snd (projr ex_moved_run))
     ''/clients/Internal/call-notes/2024-03-01-Standup-weekly.md'' = None \<and>
   st_printed (snd (projr ex_moved_run)) = [''No new transcripts to sync.'']"
  by (simp add: ex_moved_run_value ex_moved_cache_def ex_moved_doc_def ex_moved_entry_def
      ex_moved_files_def ex_run_defs)

end
